theory Spec2Isabelle
  imports Complex_Main
begin

section \<open>JSON values and Python exceptions\<close>

text \<open>
  Request and response bodies are JSON-shaped Python objects (\<open>JsonDict\<close> in the source).
  An object keeps its keys as an association list, as a Python dict keeps them in
  insertion order; \<open>JNull\<close> is Python's \<open>None\<close>.
\<close>

datatype json =
    JNull
  | JBool bool
  | JNumber real
  | JString string
  | JArray "json list"
  | JObject "(string \<times> json) list"

text \<open>
  Modelled from the spec: the class \<open>ServerError\<close>, imported from
  \<open>allennlp_server.config_explorer.config_explorer\<close>, which is not among the sources.
  The spec describes it as the single custom error kind, which carries a JSON payload of
  shape \<open>{message, status_code}\<close> and an HTTP status code; the call
  \<open>ServerError("static_dir not specified", 404)\<close> gives the message and the status code
  in this order.
\<close>

record server_error =
  message :: string
  status_code :: nat

text \<open>
  Modelled from the spec: \<open>ServerError.to_dict\<close>, the JSON payload of the error, of shape
  \<open>{message, status_code}\<close>.
\<close>

definition to_dict :: "server_error \<Rightarrow> json" where
  "to_dict e =
     JObject [(''message'', JString (message e)),
              (''status_code'', JNumber (real (status_code e)))]"

text \<open>
  Every raise of the source is a value. \<open>HTTPException code\<close> stands for the exceptions of
  the web framework (400 for a body that is not JSON, 404, 405); \<open>PredictorError\<close> for
  whatever the prediction library raises.
\<close>

datatype exn =
    ServerError server_error
  | TypeError string
  | KeyError string
  | ValueError string
  | HTTPException nat
  | PredictorError string

definition bind_exn :: "exn + 'a \<Rightarrow> ('a \<Rightarrow> exn + 'b) \<Rightarrow> exn + 'b" where
  "bind_exn r f = (case r of Inl e \<Rightarrow> Inl e | Inr x \<Rightarrow> f x)"

fun map_exn :: "('a \<Rightarrow> exn + 'b) \<Rightarrow> 'a list \<Rightarrow> exn + 'b list" where
  "map_exn f [] = Inr []"
| "map_exn f (x # xs) =
     bind_exn (f x) (\<lambda>y. bind_exn (map_exn f xs) (\<lambda>ys. Inr (y # ys)))"

section \<open>Python's \<open>string.Template\<close>\<close>

text \<open>
  \<open>Template(s).substitute(**kw)\<close> scans \<open>s\<close> for the delimiter \<open>$\<close>: \<open>$$\<close> is an escaped
  dollar, \<open>$name\<close> and \<open>${name}\<close> are replaced by \<open>kw[name]\<close> (a missing key raises
  \<open>KeyError\<close>), where a name is the longest match of \<open>[_a-zA-Z][_a-zA-Z0-9]*\<close>, and any
  other \<open>$\<close> raises \<open>ValueError\<close>. A substituted value is not scanned again.
\<close>

definition is_id_start :: "char \<Rightarrow> bool" where
  "is_id_start c \<longleftrightarrow>
     c \<in> set ''_abcdefghijklmnopqrstuvwxyzABCDEFGHIJKLMNOPQRSTUVWXYZ''"

definition is_id_char :: "char \<Rightarrow> bool" where
  "is_id_char c \<longleftrightarrow> is_id_start c \<or> c \<in> set ''0123456789''"

definition lookup_key :: "(string \<times> string) list \<Rightarrow> string \<Rightarrow> exn + string" where
  "lookup_key kw name =
     (case map_of kw name of None \<Rightarrow> Inl (KeyError name) | Some v \<Rightarrow> Inr v)"

function substitute :: "string \<Rightarrow> (string \<times> string) list \<Rightarrow> exn + string" where
  "substitute [] kw = Inr []"
| "substitute (c # cs) kw =
     (if c \<noteq> CHR ''$'' then bind_exn (substitute cs kw) (\<lambda>r. Inr (c # r))
      else case cs of
        [] \<Rightarrow> Inl (ValueError ''Invalid placeholder in string'')
      | d # ds \<Rightarrow>
          if d = CHR ''$'' then bind_exn (substitute ds kw) (\<lambda>r. Inr (CHR ''$'' # r))
          else if is_id_start d then
            bind_exn (lookup_key kw (takeWhile is_id_char cs)) (\<lambda>v.
            bind_exn (substitute (dropWhile is_id_char cs) kw) (\<lambda>r. Inr (v @ r)))
          else if d = CHR ''{'' \<and> ds \<noteq> [] \<and> is_id_start (hd ds)
                  \<and> take 1 (dropWhile is_id_char ds) = ''}'' then
            bind_exn (lookup_key kw (takeWhile is_id_char ds)) (\<lambda>v.
            bind_exn (substitute (drop 1 (dropWhile is_id_char ds)) kw) (\<lambda>r. Inr (v @ r)))
          else Inl (ValueError ''Invalid placeholder in string''))"
  by pat_completeness auto
termination
proof (relation "measure (\<lambda>(s, kw). length s)", simp_all, goal_cases)
  case (1 c cs d ds)
  show ?case
    using length_dropWhile_le [of is_id_char ds] by simp
next
  case (2 c cs ds)
  show ?case
    using length_dropWhile_le [of is_id_char ds] by simp
qed

section \<open>The bare-bones front end\<close>

text \<open>The templates and the style sheet, as the source has them.\<close>

definition PAGE_TEMPLATE :: string where
  \<open>PAGE_TEMPLATE = ''
<html>
    <head>
        <title>
            $title
        </title>
        <style>
            $css
        </style>
    </head>
    <body>
        <div class="pane-container">
            <div class="pane model">
                <div class="pane__left model__input">
                    <div class="model__content">
                        <h2><span>$title</span></h2>
                        <div class="model__content">
                            $inputs
                            <div class="form__field form__field--btn">
                                <button type="button" class="btn btn--icon-disclosure" onclick="predict()">
                                    Predict
                                </button>
                            </div>
                        </div>
                    </div>
                </div>
                <div class="pane__right model__output model__output--empty">
                    <div class="pane__thumb"></div>
                    <div class="model__content">
                        <div id="output" class="output">
                            <div class="placeholder">
                                <div class="placeholder__content">
                                    <p>Run model to view results</p>
                                </div>
                            </div>
                        </div>
                    </div>
                </div>
            </div>
        </div>
    </body>
    <script>
    function predict() {
        var quotedFieldList = $qfl;
        var data = {};
        quotedFieldList.forEach(function(fieldName) {
            data[fieldName] = document.getElementById("input-" + fieldName).value;
        })

        var xhr = new XMLHttpRequest();
        xhr.open('POST', '/predict');
        xhr.setRequestHeader('Content-Type', 'application/json');
        xhr.onload = function() {
            if (xhr.status == 200) {
                // If you want a more impressive visualization than just
                // outputting the raw JSON, change this part of the code.
                var htmlResults = "<pre>" + JSON.stringify(JSON.parse(xhr.responseText), null, 2) + "</pre>";

                document.getElementById("output").innerHTML = htmlResults;
            }
        };
        xhr.send(JSON.stringify(data));
    }
    </script>
</html>
''\<close>

definition SINGLE_INPUT_TEMPLATE :: string where
  \<open>SINGLE_INPUT_TEMPLATE = ''
        <div class="form__field">
            <label for="input-$field_name">$field_name</label>
            <input type="text" id="input-$field_name" type="text" required value placeholder="input goes here">
        </div>
''\<close>

definition CSS :: string where
  \<open>CSS = ''
body,
html {
  min-width: 48em;
  background: #f9fafc;
  font-size: 16px
}

* {
  font-family: sans-serif;
  color: #232323
}

section {
  background: #fff
}

code,
code span,
pre,
.output {
  font-family: 'Roboto Mono', monospace!important
}

code {
  background: #f6f8fa
}

li,
p,
td,
th {
  -webkit-font-smoothing: antialiased;
  -moz-osx-font-smoothing: grayscale;
  font-size: 1.125em;
  line-height: 1.5em;
  margin: 1.2em 0
}

pre {
  margin: 2em 0
}

h1,
h2 {
  -webkit-font-smoothing: antialiased;
  -moz-osx-font-smoothing: grayscale;
  font-weight: 300
}

h2 {
  font-size: 2em;
  color: rgba(35, 35, 35, .75)
}

img {
  max-width: 100%
}

hr {
  display: block;
  border: none;
  height: .375em;
  background: #f6f8fa
}

blockquote,
hr {
  margin: 2.4em 0
}

.btn {
  text-decoration: none;
  cursor: pointer;
  text-transform: uppercase;
  font-size: 1em;
  margin: 0;
  -moz-appearance: none;
  -webkit-appearance: none;
  border: none;
  color: #fff!important;
  display: block;
  background: #2085bc;
  padding: .9375em 3.625em;
  -webkit-transition: background-color .2s ease, opacity .2s ease;
  transition: background-color .2s ease, opacity .2s ease
}

.btn.btn--blue {
  background: #2085bc
}

.btn:focus,
.btn:hover {
  background: #40affd;
  outline: 0
}

.btn:focus {
  box-shadow: 0 0 1.25em rgba(50, 50, 150, .05)
}

.btn:active {
  opacity: .66;
  background: #2085bc;
  -webkit-transition-duration: 0s;
  transition-duration: 0s
}

.btn:disabled,
.btn:disabled:active,
.btn:disabled:hover {
  cursor: default;
  background: #d0dae3
}

form {
  display: block
}

.form__field {
  -webkit-transition: margin .2s ease;
  transition: margin .2s ease
}

.form__field+.form__field {
  margin-top: 2.5em
}

.form__field label {
  display: block;
  font-weight: 600;
  font-size: 1.125em
}

.form__field label+* {
  margin-top: 1.25em
}

.form__field input[type=text],
.form__field textarea {
  -moz-appearance: none;
  -webkit-appearance: none;
  width: 100%;
  font-size: 1em;
  -webkit-font-smoothing: antialiased;
  -moz-osx-font-smoothing: grayscale;
  padding: .8125em 1.125em;
  color: #232323;
  border: .125em solid #d4dce2;
  display: block;
  box-sizing: border-box;
  -webkit-transition: background-color .2s ease, color .2s ease, border-color .2s ease, opacity .2s ease;
  transition: background-color .2s ease, color .2s ease, border-color .2s ease, opacity .2s ease
}

.form__field input[type=text]::-webkit-input-placeholder,
.form__field textarea::-webkit-input-placeholder {
  color: #b4b4b4
}

.form__field input[type=text]:-moz-placeholder,
.form__field textarea:-moz-placeholder {
  color: #b4b4b4
}

.form__field input[type=text]::-moz-placeholder,
.form__field textarea::-moz-placeholder {
  color: #b4b4b4
}

.form__field input[type=text]:-ms-input-placeholder,
.form__field textarea:-ms-input-placeholder {
  color: #b4b4b4
}

.form__field input[type=text]:focus,
.form__field textarea:focus {
  outline: 0;
  border-color: #63a7d4;
  box-shadow: 0 0 1.25em rgba(50, 50, 150, .05)
}

.form__field textarea {
  resize: vertical;
  min-height: 8.25em
}

.form__field .btn {
  -webkit-user-select: none;
  -moz-user-select: none;
  -ms-user-select: none;
  user-select: none;
  -webkit-touch-callout: none
}

.form__field--btn {
  display: -webkit-box;
  display: -ms-flexbox;
  display: -webkit-flex;
  display: flex;
  -webkit-flex-direction: row;
  -ms-flex-direction: row;
  -webkit-box-orient: horizontal;
  -webkit-box-direction: normal;
  flex-direction: row;
  -webkit-justify-content: flex-end;
  -ms-justify-content: flex-end;
  -webkit-box-pack: end;
  -ms-flex-pack: end;
  justify-content: flex-end
}

@media screen and (max-height:760px) {
  .form__instructions {
    margin: 1.875em 0 1.125em
  }
  .form__field:not(.form__field--btn)+.form__field:not(.form__field--btn) {
    margin-top: 1.25em
  }
}

body,
html {
  width: 100%;
  height: 100%;
  margin: 0;
  padding: 0;
  font-family: 'Source Sans Pro', sans-serif
}

h1 {
  font-weight: 300
}

.model__output {
  background: #fff
}

.model__output.model__output--empty {
  background: 0 0
}

.placeholder {
  width: 100%;
  height: 100%;
  display: -webkit-box;
  display: -ms-flexbox;
  display: -webkit-flex;
  display: flex;
  -webkit-align-items: center;
  -ms-flex-align: center;
  -webkit-box-align: center;
  align-items: center;
  -webkit-justify-content: center;
  -ms-justify-content: center;
  -webkit-box-pack: center;
  -ms-flex-pack: center;
  justify-content: center;
  -webkit-user-select: none;
  -moz-user-select: none;
  -ms-user-select: none;
  user-select: none;
  -webkit-touch-callout: none;
  cursor: default
}

.placeholder .placeholder__content {
  display: -webkit-box;
  display: -ms-flexbox;
  display: -webkit-flex;
  display: flex;
  -webkit-flex-direction: column;
  -ms-flex-direction: column;
  -webkit-box-orient: vertical;
  -webkit-box-direction: normal;
  flex-direction: column;
  -webkit-align-items: center;
  -ms-flex-align: center;
  -webkit-box-align: center;
  align-items: center;
  text-align: center
}

.placeholder svg {
  display: block
}

.placeholder svg.placeholder__empty,
.placeholder svg.placeholder__error {
  width: 6em;
  height: 3.625em;
  fill: #e1e5ea;
  margin-bottom: 2em
}

.placeholder svg.placeholder__error {
  width: 4.4375em;
  height: 4em
}

.placeholder p {
  font-size: 1em;
  margin: 0;
  padding: 0;
  color: #9aa8b2
}

.placeholder svg.placeholder__working {
  width: 3.4375em;
  height: 3.4375em;
  -webkit-animation: working 1s infinite linear;
  animation: working 1s infinite linear
}

@-webkit-keyframes working {
  0% {
    -webkit-transform: rotate(0deg)
  }
  100% {
    -webkit-transform: rotate(360deg)
  }
}

@keyframes working {
  0% {
    -webkit-transform: rotate(0deg);
    -ms-transform: rotate(0deg);
    transform: rotate(0deg)
  }
  100% {
    -webkit-transform: rotate(360deg);
    -ms-transform: rotate(360deg);
    transform: rotate(360deg)
  }
}

.model__content {
  padding: 1.875em 2.5em;
  margin: auto;
  -webkit-transition: padding .2s ease;
  transition: padding .2s ease
}

.model__content:not(.model__content--srl-output) {
  max-width: 61.25em
}

.model__content h2 {
  margin: 0;
  padding: 0;
  font-size: 1em
}

.model__content h2 span {
  font-size: 2em;
  color: rgba(35, 35, 35, .75)
}

.model__content h2 .tooltip,
.model__content h2 span {
  vertical-align: top
}

.model__content h2 span+.tooltip {
  margin-left: .4375em
}

.model__content>h2:first-child {
  margin: -.25em 0 0 -.03125em
}

.model__content__summary {
  font-size: 1em;
  -webkit-font-smoothing: antialiased;
  -moz-osx-font-smoothing: grayscale;
  padding: 1.25em;
  background: #f6f8fa
}

@media screen and (min-height:800px) {
  .model__content {
    padding-top: 4.6vh;
    padding-bottom: 4.6vh
  }
}

.pane-container {
  display: -webkit-box;
  display: -ms-flexbox;
  display: -webkit-flex;
  display: flex;
  -webkit-flex-direction: column;
  -ms-flex-direction: column;
  -webkit-box-orient: vertical;
  -webkit-box-direction: normal;
  flex-direction: column;
  height: 100%
}

.pane {
  display: -webkit-box;
  display: -ms-flexbox;
  display: -webkit-flex;
  display: flex;
  -webkit-flex-direction: row;
  -ms-flex-direction: row;
  -webkit-box-orient: horizontal;
  -webkit-box-direction: normal;
  flex-direction: row;
  position: relative;
  -webkit-box-flex: 2;
  -webkit-flex: 2;
  -ms-flex: 2;
  flex: 2;
  height: auto;
  min-height: 100%;
  min-height: 34.375em
}

.pane__left,
.pane__right {
  width: 100%;
  height: 100%;
  -webkit-align-self: stretch;
  -ms-flex-item-align: stretch;
  align-self: stretch;
  min-width: 24em;
  min-height: 34.375em
}

.pane__left {
  height: auto;
  min-height: 100%
}

.pane__right {
  width: 100%;
  overflow: auto;
  height: auto;
  min-height: 100%
}

.pane__right .model__content.model__content--srl-output {
  display: inline-block;
  margin: auto
}

.pane__thumb {
  height: auto;
  min-height: 100%;
  margin-left: -.625em;
  position: absolute;
  width: 1.25em
}

.pane__thumb:after {
  display: block;
  position: absolute;
  height: 100%;
  top: 0;
  content: "";
  width: .25em;
  background: #e1e5ea;
  left: .5em
}
''\<close>

text \<open>\<open>sep.join(xs)\<close> of Python.\<close>

fun join :: "string \<Rightarrow> string list \<Rightarrow> string" where
  "join sep [] = []"
| "join sep [x] = x"
| "join sep (x # y # ys) = x @ sep @ join sep (y # ys)"

text \<open>
  \<open>_html(title, field_names)\<close>. Iterating over \<open>field_names\<close> when it is \<open>None\<close> raises
  \<open>TypeError\<close> (the generator expression evaluates its iterable at once).
\<close>

definition NOT_ITERABLE :: string where
  "NOT_ITERABLE = [CHR 0x27] @ ''NoneType'' @ [CHR 0x27] @ '' object is not iterable''"

definition html :: "string \<Rightarrow> string list option \<Rightarrow> exn + string" where
  "html title field_names =
     (case field_names of
        None \<Rightarrow> Inl (TypeError NOT_ITERABLE)
      | Some fs \<Rightarrow>
          bind_exn (map_exn (\<lambda>field_name.
                      substitute SINGLE_INPUT_TEMPLATE [(''field_name'', field_name)]) fs)
            (\<lambda>rendered.
               let inputs = concat rendered;
                   quoted_field_names = map (\<lambda>field_name. [CHR 0x27] @ field_name @ [CHR 0x27]) fs;
                   quoted_field_list = ''['' @ join '','' quoted_field_names @ '']''
               in substitute PAGE_TEMPLATE
                    [(''title'', title), (''css'', CSS), (''inputs'', inputs),
                     (''qfl'', quoted_field_list)]))"

section \<open>HTTP messages, the predictor and the environment\<close>

datatype http_method = GET | HEAD | POST | PUT | DELETE | OPTIONS | PATCH

datatype payload = Text string | Json json

record response =
  status :: nat
  body :: payload

text \<open>
  A request as the views read it: \<open>request.method\<close>, the path of the URL and the result
  of \<open>request.get_json()\<close>, which raises when the body cannot be decoded.
\<close>

record request =
  req_method :: http_method
  req_path :: string
  get_json :: "exn + json"

text \<open>
  The \<open>Predictor\<close> is an external collaborator: the two calls the server makes are taken
  as they come, and either may raise. The sanitizer is a function on JSON values.
\<close>

record Predictor =
  predict_json :: "json \<Rightarrow> exn + json"
  predict_batch_json :: "json \<Rightarrow> exn + json list"

text \<open>
  What the server asks of the operating system, the web framework and the model
  library: \<open>os.path.abspath\<close>, \<open>os.path.exists\<close>, \<open>send_file\<close>,
  \<open>send_from_directory\<close>, \<open>check_for_gpu\<close>, \<open>load_archive\<close> and
  \<open>Predictor.from_archive\<close>. The type \<open>'a\<close> is the archive's. \<open>root_path\<close> is the directory
  of the module that makes the app, where \<open>Flask(__name__)\<close> looks for its own folder
  \<open>static\<close>.
\<close>

record 'a env =
  root_path :: string
  abspath :: "string \<Rightarrow> string"
  path_exists :: "string \<Rightarrow> bool"
  send_file :: "string \<Rightarrow> exn + response"
  send_from_directory :: "string \<Rightarrow> string \<Rightarrow> exn + response"
  check_for_gpu :: "int \<Rightarrow> exn option"
  load_archive :: "string \<Rightarrow> string option \<Rightarrow> int \<Rightarrow> string \<Rightarrow> exn + 'a"
  from_archive :: "'a \<Rightarrow> string \<Rightarrow> exn + Predictor"

text \<open>
  Effects in the order the code performs them. \<open>LogInfo f j\<close> is
  \<open>logger.info(f, json.dumps(j))\<close>, \<open>LogError f s\<close> is \<open>logger.error(f, s)\<close>, \<open>Printed\<close> a
  line on standard output, \<open>EnableCORS\<close> the call \<open>CORS(app)\<close> and \<open>Listen host port\<close>
  the server loop \<open>WSGIServer((host, port), app).serve_forever()\<close>, which binds the
  socket.
\<close>

datatype log_record = LogInfo string json | LogError string string

datatype effect =
    Logged log_record
  | Printed string
  | EnableCORS
  | Listen string int

section \<open>\<open>make_app\<close>\<close>

text \<open>
  The app is the closure of the views over the arguments of \<open>make_app\<close>;
  \<open>static_dir\<close> is the absolute path by then.
\<close>

record app =
  predictor :: Predictor
  field_names :: "string list option"
  static_dir :: "string option"
  sanitizer :: "(json \<Rightarrow> json) option"
  title :: string

definition NO_FRONT_END :: string where
  \<open>NO_FRONT_END =
     ''Neither build_dir nor field_names passed. Demo won't render on this port.
You must use nodejs + react app to interact with the server.''\<close>

text \<open>\<open>Inl code\<close> is \<open>sys.exit(code)\<close>.\<close>

definition make_app ::
  "'a env \<Rightarrow> Predictor \<Rightarrow> string list option \<Rightarrow> string option \<Rightarrow> (json \<Rightarrow> json) option
     \<Rightarrow> string \<Rightarrow> effect list \<times> (int + app)" where
  "make_app os p fns sd san t =
     (case sd of
        Some d \<Rightarrow>
          (let d' = abspath os d in
           if \<not> path_exists os d'
           then ([Logged (LogError ''app directory %s does not exist, aborting'' d')], Inl (- 1))
           else ([], Inr \<lparr>predictor = p, field_names = fns, static_dir = Some d',
                           sanitizer = san, title = t\<rparr>))
      | None \<Rightarrow>
          (if fns = None then [Printed NO_FRONT_END] else [],
           Inr \<lparr>predictor = p, field_names = fns, static_dir = None,
                 sanitizer = san, title = t\<rparr>))"

subsection \<open>The views\<close>

definition jsonify :: "json \<Rightarrow> response" where
  "jsonify j = \<lparr>status = 200, body = Json j\<rparr>"

definition handle_invalid_usage :: "server_error \<Rightarrow> response" where
  "handle_invalid_usage error = (jsonify (to_dict error))\<lparr>status := status_code error\<rparr>"

text \<open>\<open>os.path.join\<close> with a relative second part.\<close>

definition os_path_join :: "string \<Rightarrow> string \<Rightarrow> string" where
  "os_path_join a b = (if a = [] \<or> last a = CHR ''/'' then a @ b else a @ ''/'' @ b)"

definition index :: "'a env \<Rightarrow> app \<Rightarrow> exn + response" where
  "index os a =
     (case static_dir a of
        Some d \<Rightarrow> send_file os (os_path_join d ''index.html'')
      | None \<Rightarrow>
          bind_exn (html (title a) (field_names a))
            (\<lambda>h. Inr \<lparr>status = 200, body = Text h\<rparr>))"

definition predict :: "app \<Rightarrow> request \<Rightarrow> log_record list \<times> (exn + response)" where
  "predict a req =
     (if req_method req = OPTIONS then ([], Inr \<lparr>status = 200, body = Text ''''\<rparr>)
      else case get_json req of
        Inl e \<Rightarrow> ([], Inl e)
      | Inr data \<Rightarrow>
          (case predict_json (predictor a) data of
             Inl e \<Rightarrow> ([], Inl e)
           | Inr p \<Rightarrow>
               (let prediction = (case sanitizer a of None \<Rightarrow> p | Some s \<Rightarrow> s p);
                    log_blob = JObject [(''inputs'', data), (''outputs'', prediction)]
                in ([LogInfo ''prediction: %s'' log_blob], Inr (jsonify prediction)))))"

definition predict_batch :: "app \<Rightarrow> request \<Rightarrow> log_record list \<times> (exn + response)" where
  "predict_batch a req =
     (if req_method req = OPTIONS then ([], Inr \<lparr>status = 200, body = Text ''''\<rparr>)
      else case get_json req of
        Inl e \<Rightarrow> ([], Inl e)
      | Inr data \<Rightarrow>
          (case predict_batch_json (predictor a) data of
             Inl e \<Rightarrow> ([], Inl e)
           | Inr ps \<Rightarrow>
               (let prediction = (case sanitizer a of None \<Rightarrow> ps | Some s \<Rightarrow> map s ps)
                in ([], Inr (jsonify (JArray prediction))))))"

definition static_proxy :: "'a env \<Rightarrow> app \<Rightarrow> string \<Rightarrow> exn + response" where
  "static_proxy os a path =
     (case static_dir a of
        Some d \<Rightarrow> send_from_directory os d path
      | None \<Rightarrow> Inl (ServerError \<lparr>message = ''static_dir not specified'', status_code = 404\<rparr>))"

subsection \<open>Routing\<close>

text \<open>
  The rules of the app, in the order in which the framework tries them: the four
  \<open>@app.route\<close> decorators of the source, and before \<open>/<path:path>\<close> the rule
  \<open>/static/<path:filename>\<close> that \<open>Flask(__name__)\<close> registers for the app's own static
  folder (fixed paths are tried before rules with a converter, and the rule with the
  longer fixed part first). A rule is a fixed path, or a fixed prefix and a \<open>path\<close>
  converter, which takes a non-empty rest that does not start with a slash. A route
  without \<open>methods\<close> answers GET; the framework adds HEAD to a route that answers GET,
  and answers OPTIONS itself on a route that does not list it.
\<close>

datatype endpoint = Index | Predict | Predict_batch | Static | Static_proxy

datatype rule = Fixed string | Path_rest string

definition routes :: "(rule \<times> http_method list option \<times> endpoint) list" where
  "routes =
     [(Fixed ''/'', None, Index),
      (Fixed ''/predict'', Some [POST, OPTIONS], Predict),
      (Fixed ''/predict_batch'', Some [POST, OPTIONS], Predict_batch),
      (Path_rest ''/static/'', None, Static),
      (Path_rest ''/'', None, Static_proxy)]"

definition listed_methods :: "http_method list option \<Rightarrow> http_method list" where
  "listed_methods ms = (case ms of None \<Rightarrow> [GET] | Some l \<Rightarrow> l)"

definition automatic_options :: "http_method list option \<Rightarrow> bool" where
  "automatic_options ms \<longleftrightarrow> OPTIONS \<notin> set (listed_methods ms)"

definition allowed_methods :: "http_method list option \<Rightarrow> http_method list" where
  "allowed_methods ms =
     listed_methods ms
       @ (if GET \<in> set (listed_methods ms) then [HEAD] else [])
       @ (if automatic_options ms then [OPTIONS] else [])"

fun strip_prefix :: "string \<Rightarrow> string \<Rightarrow> string option" where
  "strip_prefix [] s = Some s"
| "strip_prefix (p # ps) [] = None"
| "strip_prefix (p # ps) (c # cs) = (if p = c then strip_prefix ps cs else None)"

fun match_rule :: "rule \<Rightarrow> string \<Rightarrow> string option" where
  "match_rule (Fixed p) url = (if url = p then Some [] else None)"
| "match_rule (Path_rest pre) url =
     (case strip_prefix pre url of
        None \<Rightarrow> None
      | Some [] \<Rightarrow> None
      | Some (d # ds) \<Rightarrow> if d \<noteq> CHR ''/'' then Some (d # ds) else None)"

text \<open>
  The first rule that matches the path and allows the method wins; a path that only
  matches rules of other methods is 405, a path that matches none is 404.
\<close>

fun find_route ::
  "(rule \<times> http_method list option \<times> endpoint) list \<Rightarrow> http_method \<Rightarrow> string \<Rightarrow> bool
     \<Rightarrow> exn + (endpoint \<times> http_method list option \<times> string)" where
  "find_route [] m url seen = Inl (HTTPException (if seen then 405 else 404))"
| "find_route ((r, ms, ep) # rs) m url seen =
     (case match_rule r url of
        None \<Rightarrow> find_route rs m url seen
      | Some arg \<Rightarrow>
          if m \<in> set (allowed_methods ms) then Inr (ep, ms, arg)
          else find_route rs m url True)"

text \<open>
  The one handler registered with \<open>@app.errorhandler\<close> takes a \<open>ServerError\<close>; any other
  exception is left to the framework (\<open>Inl\<close>).
\<close>

definition handle_user_exception :: "exn + response \<Rightarrow> exn + response" where
  "handle_user_exception r =
     (case r of
        Inl (ServerError error) \<Rightarrow> Inr (handle_invalid_usage error)
      | _ \<Rightarrow> r)"

text \<open>
  The view of the framework's static rule: \<open>send_static_file\<close> serves the file from the
  folder \<open>static\<close> beside the module.
\<close>

definition send_static_file :: "'a env \<Rightarrow> string \<Rightarrow> exn + response" where
  "send_static_file os filename =
     send_from_directory os (os_path_join (root_path os) ''static'') filename"

text \<open>
  One request through the app: routing, the view, and the error handler. The log
  records are those that the views write; what the framework itself logs about an
  exception it is left with is not part of the model.
\<close>

definition handle_request ::
  "'a env \<Rightarrow> app \<Rightarrow> request \<Rightarrow> log_record list \<times> (exn + response)" where
  "handle_request os a req =
     (case find_route routes (req_method req) (req_path req) False of
        Inl e \<Rightarrow> ([], Inl e)
      | Inr (ep, ms, arg) \<Rightarrow>
          if automatic_options ms \<and> req_method req = OPTIONS
          then ([], Inr \<lparr>status = 200, body = Text ''''\<rparr>)
          else
            (let (logs, r) =
                   (case ep of
                      Index \<Rightarrow> ([], index os a)
                    | Predict \<Rightarrow> predict a req
                    | Predict_batch \<Rightarrow> predict_batch a req
                    | Static \<Rightarrow> ([], send_static_file os arg)
                    | Static_proxy \<Rightarrow> ([], static_proxy os a arg))
             in (logs, handle_user_exception r)))"

section \<open>The command \<open>serve\<close>\<close>

record args =
  args_archive_path :: string
  args_predictor :: string
  args_weights_file :: "string option"
  args_cuda_device :: int
  args_overrides :: string
  args_static_dir :: "string option"
  args_title :: string
  args_field_names :: "string list option"
  args_host :: string
  args_port :: int

definition get_predictor :: "'a env \<Rightarrow> args \<Rightarrow> exn + Predictor" where
  "get_predictor os a =
     (case check_for_gpu os (args_cuda_device a) of
        Some e \<Rightarrow> Inl e
      | None \<Rightarrow>
          bind_exn (load_archive os (args_archive_path a) (args_weights_file a)
                      (args_cuda_device a) (args_overrides a))
            (\<lambda>archive. from_archive os archive (args_predictor a)))"

text \<open>\<open>str(n)\<close> of a Python integer, for the f-string of the start-up line.\<close>

fun str_nat :: "nat \<Rightarrow> string" where
  "str_nat n =
     (if n < 10 then [''0123456789'' ! n]
      else str_nat (n div 10) @ [''0123456789'' ! (n mod 10)])"

definition str_int :: "int \<Rightarrow> string" where
  "str_int i = (if i < 0 then ''-'' @ str_nat (nat (- i)) else str_nat (nat i))"

text \<open>
  How a run of \<open>serve\<close> ends: the process exits with a code, an exception escapes, or
  the server loop is entered and never left.
\<close>

datatype outcome = Exited int | Raised exn | Serving app

definition serve :: "'a env \<Rightarrow> args \<Rightarrow> effect list \<times> outcome" where
  "serve os a =
     (case get_predictor os a of
        Inl e \<Rightarrow> ([], Raised e)
      | Inr p \<Rightarrow>
          (case make_app os p (args_field_names a) (args_static_dir a) None (args_title a) of
             (effects, Inl code) \<Rightarrow> (effects, Exited code)
           | (effects, Inr the_app) \<Rightarrow>
               (effects @
                  [EnableCORS,
                   Printed (''Model loaded, serving demo on http://'' @ args_host a @ '':''
                              @ str_int (args_port a)),
                   Listen (args_host a) (args_port a)],
                Serving the_app)))"

section \<open>Reading the rendered page\<close>



































section \<open>Fixtures\<close>

text \<open>
  The stub predictor of the spec's testable properties maps \<open>{"a": v}\<close> to \<open>{"r": v}\<close>,
  and its batch call does so element by element; the stub sanitizer drops one key of an
  object. The stub environment has an empty file system and loads the stub predictor;
  \<open>www_os\<close> is the same with the directory \<open>/srv/www\<close> in place.
\<close>

fun stub_predict_json :: "json \<Rightarrow> exn + json" where
  "stub_predict_json (JObject kvs) =
     (case map_of kvs ''a'' of
        Some v \<Rightarrow> Inr (JObject [(''r'', v)])
      | None \<Rightarrow> Inl (PredictorError ''a''))"
| "stub_predict_json j = Inl (PredictorError ''not an object'')"

fun stub_predict_batch_json :: "json \<Rightarrow> exn + json list" where
  "stub_predict_batch_json (JArray js) = map_exn stub_predict_json js"
| "stub_predict_batch_json j = Inl (PredictorError ''not an array'')"

definition stub_predictor :: Predictor where
  "stub_predictor =
     \<lparr>predict_json = stub_predict_json, predict_batch_json = stub_predict_batch_json\<rparr>"

fun drop_key :: "string \<Rightarrow> json \<Rightarrow> json" where
  "drop_key k (JObject kvs) = JObject (filter (\<lambda>kv. fst kv \<noteq> k) kvs)"
| "drop_key k j = j"

definition stub_os :: "unit env" where
  "stub_os =
     \<lparr>root_path = ''/srv/app'',
      abspath = (\<lambda>p. if take 1 p = ''/'' then p else ''/srv/'' @ p),
      path_exists = (\<lambda>p. False),
      send_file = (\<lambda>p. Inl (HTTPException 404)),
      send_from_directory = (\<lambda>d p. Inl (HTTPException 404)),
      check_for_gpu = (\<lambda>n. None),
      load_archive = (\<lambda>p w n ov. Inr ()),
      from_archive = (\<lambda>ar name. Inr stub_predictor)\<rparr>"

definition www_os :: "unit env" where
  "www_os = stub_os\<lparr>path_exists := (\<lambda>p. p = ''/srv/www'')\<rparr>"

definition stub_app :: app where
  "stub_app =
     \<lparr>predictor = stub_predictor, field_names = Some [''a''], static_dir = None,
      sanitizer = None, title = ''AllenNLP Demo''\<rparr>"

definition stub_args :: args where
  "stub_args =
     \<lparr>args_archive_path = ''model.tar.gz'', args_predictor = ''stub'',
      args_weights_file = None, args_cuda_device = - 1, args_overrides = '''',
      args_static_dir = None, args_title = ''AllenNLP Demo'', args_field_names = None,
      args_host = ''127.0.0.1'', args_port = 8000\<rparr>"

section \<open>Routing facts\<close>

lemma route_predict [simp]:
  "find_route routes POST ''/predict'' False = Inr (Predict, Some [POST, OPTIONS], [])"
  "find_route routes OPTIONS ''/predict'' False = Inr (Predict, Some [POST, OPTIONS], [])"
  by (simp_all add: routes_def allowed_methods_def listed_methods_def automatic_options_def)

lemma route_predict_batch [simp]:
  "find_route routes POST ''/predict_batch'' False
     = Inr (Predict_batch, Some [POST, OPTIONS], [])"
  "find_route routes OPTIONS ''/predict_batch'' False
     = Inr (Predict_batch, Some [POST, OPTIONS], [])"
  by (simp_all add: routes_def allowed_methods_def listed_methods_def automatic_options_def)

lemma route_index [simp]:
  "find_route routes GET ''/'' False = Inr (Index, None, [])"
  by (simp add: routes_def allowed_methods_def listed_methods_def automatic_options_def)




lemma route_get_predict [simp]:
  "find_route routes GET ''/predict'' False = Inr (Static_proxy, None, ''predict'')"
  by (simp add: routes_def allowed_methods_def listed_methods_def automatic_options_def)


lemma no_automatic_options [simp]: "\<not> automatic_options (Some [POST, OPTIONS])"
  by (simp add: automatic_options_def listed_methods_def)

lemma automatic_options_default [simp]: "automatic_options None"
  by (simp add: automatic_options_def listed_methods_def)

section \<open>The prediction routes\<close>

text \<open>
  C1. POST /predict answers 200 with the JSON that \<open>predict_json\<close> returns for the decoded
  body, passed through the sanitizer exactly when one is configured. This holds for
  every predictor and every decoded body on which \<open>predict_json\<close> returns.
\<close>

theorem post_predict_returns_prediction:
  assumes "predict_json (predictor a) data = Inr p"
  shows "snd (handle_request os a \<lparr>req_method = POST, req_path = ''/predict'', get_json = Inr data\<rparr>)
           = Inr \<lparr>status = 200,
                  body = Json (case sanitizer a of None \<Rightarrow> p | Some s \<Rightarrow> s p)\<rparr>"
  using assms
  by (simp add: handle_request_def handle_user_exception_def predict_def jsonify_def Let_def)

theorem post_predict_returns_prediction_witness:
  "snd (handle_request stub_os stub_app
          \<lparr>req_method = POST, req_path = ''/predict'',
           get_json = Inr (JObject [(''a'', JString ''x'')])\<rparr>)
     = Inr \<lparr>status = 200, body = Json (JObject [(''r'', JString ''x'')])\<rparr>
   \<and> snd (handle_request stub_os (stub_app\<lparr>sanitizer := Some (drop_key ''r'')\<rparr>)
          \<lparr>req_method = POST, req_path = ''/predict'',
           get_json = Inr (JObject [(''a'', JString ''x'')])\<rparr>)
     = Inr \<lparr>status = 200, body = Json (JObject [])\<rparr>"
proof -
  have p: "predict_json (predictor stub_app) (JObject [(''a'', JString ''x'')])
             = Inr (JObject [(''r'', JString ''x'')])"
    by (simp add: stub_app_def stub_predictor_def)
  have q: "predict_json (predictor (stub_app\<lparr>sanitizer := Some (drop_key ''r'')\<rparr>))
             (JObject [(''a'', JString ''x'')]) = Inr (JObject [(''r'', JString ''x'')])"
    by (simp add: stub_app_def stub_predictor_def)
  show ?thesis
    using post_predict_returns_prediction [OF p, of stub_os]
          post_predict_returns_prediction [OF q, of stub_os]
    by (simp add: stub_app_def)
qed

text \<open>
  C2. POST /predict_batch answers 200 with the JSON array of what \<open>predict_batch_json\<close>
  returns for the decoded body, the sanitizer (when configured) applied to each element,
  in the order of the predictions.
\<close>

theorem post_predict_batch_returns_predictions:
  assumes "predict_batch_json (predictor a) data = Inr ps"
  shows "snd (handle_request os a
                \<lparr>req_method = POST, req_path = ''/predict_batch'', get_json = Inr data\<rparr>)
           = Inr \<lparr>status = 200,
                  body = Json (JArray (case sanitizer a of None \<Rightarrow> ps | Some s \<Rightarrow> map s ps))\<rparr>"
  using assms
  by (simp add: handle_request_def handle_user_exception_def predict_batch_def jsonify_def
                Let_def)

theorem post_predict_batch_returns_predictions_witness:
  "snd (handle_request stub_os stub_app
          \<lparr>req_method = POST, req_path = ''/predict_batch'',
           get_json = Inr (JArray [JObject [(''a'', JString ''x'')],
                                   JObject [(''a'', JString ''y'')]])\<rparr>)
     = Inr \<lparr>status = 200,
            body = Json (JArray [JObject [(''r'', JString ''x'')],
                                 JObject [(''r'', JString ''y'')]])\<rparr>"
proof -
  have p: "predict_batch_json (predictor stub_app)
             (JArray [JObject [(''a'', JString ''x'')], JObject [(''a'', JString ''y'')]])
           = Inr [JObject [(''r'', JString ''x'')], JObject [(''r'', JString ''y'')]]"
    by (simp add: stub_app_def stub_predictor_def bind_exn_def)
  show ?thesis
    using post_predict_batch_returns_predictions [OF p, of stub_os]
    by (simp add: stub_app_def)
qed

text \<open>
  C6. OPTIONS /predict and OPTIONS /predict_batch answer 200 with an empty body, whatever
  the app was built from and whatever the request carries; nothing is logged.
\<close>

theorem options_empty_200:
  "handle_request os a \<lparr>req_method = OPTIONS, req_path = ''/predict'', get_json = j\<rparr>
     = ([], Inr \<lparr>status = 200, body = Text ''''\<rparr>)
   \<and> handle_request os a \<lparr>req_method = OPTIONS, req_path = ''/predict_batch'', get_json = j\<rparr>
     = ([], Inr \<lparr>status = 200, body = Text ''''\<rparr>)"
  by (simp add: handle_request_def handle_user_exception_def predict_def predict_batch_def)

theorem options_empty_200_witness:
  "handle_request stub_os (stub_app\<lparr>static_dir := Some ''/srv/www'', field_names := None\<rparr>)
     \<lparr>req_method = OPTIONS, req_path = ''/predict'', get_json = Inl (HTTPException 400)\<rparr>
     = ([], Inr \<lparr>status = 200, body = Text ''''\<rparr>)
   \<and> handle_request stub_os (stub_app\<lparr>static_dir := Some ''/srv/www'', field_names := None\<rparr>)
     \<lparr>req_method = OPTIONS, req_path = ''/predict_batch'', get_json = Inl (HTTPException 400)\<rparr>
     = ([], Inr \<lparr>status = 200, body = Text ''''\<rparr>)"
  using options_empty_200
    [of stub_os "stub_app\<lparr>static_dir := Some ''/srv/www'', field_names := None\<rparr>"
        "Inl (HTTPException 400)"]
  by simp

lemma make_app_keeps:
  assumes "snd (make_app os p fns sd san t) = Inr a"
  shows "predictor a = p" and "sanitizer a = san"
  using assms by (auto simp: make_app_def Let_def split: option.splits if_splits)

lemma posts_agree:
  assumes "predictor a = predictor b" and "sanitizer a = sanitizer b"
  shows "handle_request os a \<lparr>req_method = POST, req_path = ''/predict'', get_json = j\<rparr>
           = handle_request os' b \<lparr>req_method = POST, req_path = ''/predict'', get_json = j\<rparr>"
    and "handle_request os a \<lparr>req_method = POST, req_path = ''/predict_batch'', get_json = j\<rparr>
           = handle_request os' b
               \<lparr>req_method = POST, req_path = ''/predict_batch'', get_json = j\<rparr>"
  unfolding handle_request_def predict_def predict_batch_def assms by simp_all

text \<open>
  C10. The answer to a POST on /predict or /predict_batch, and what it logs, depend on
  the app only through its predictor and its sanitizer: two apps that \<open>make_app\<close> builds
  from the same predictor and the same sanitizer answer every request body alike,
  whatever their titles, field names, static directories and environments.
\<close>

theorem prediction_depends_on_predictor_and_sanitizer:
  assumes "snd (make_app os p fns sd san t) = Inr a"
    and "snd (make_app os' p fns' sd' san t') = Inr b"
  shows "handle_request os a \<lparr>req_method = POST, req_path = ''/predict'', get_json = j\<rparr>
           = handle_request os' b \<lparr>req_method = POST, req_path = ''/predict'', get_json = j\<rparr>
         \<and> handle_request os a \<lparr>req_method = POST, req_path = ''/predict_batch'', get_json = j\<rparr>
           = handle_request os' b
               \<lparr>req_method = POST, req_path = ''/predict_batch'', get_json = j\<rparr>"
proof -
  have "predictor a = predictor b" and "sanitizer a = sanitizer b"
    using make_app_keeps [OF assms(1)] make_app_keeps [OF assms(2)] by simp_all
  then show ?thesis
    using posts_agree [of a b] by blast
qed

theorem prediction_depends_on_predictor_and_sanitizer_witness:
  "handle_request stub_os stub_app
     \<lparr>req_method = POST, req_path = ''/predict'', get_json = Inr (JObject [(''a'', JNull)])\<rparr>
     = handle_request www_os
         \<lparr>predictor = stub_predictor, field_names = None, static_dir = Some ''/srv/www'',
          sanitizer = None, title = ''Other''\<rparr>
         \<lparr>req_method = POST, req_path = ''/predict'', get_json = Inr (JObject [(''a'', JNull)])\<rparr>
   \<and> handle_request stub_os stub_app
     \<lparr>req_method = POST, req_path = ''/predict_batch'',
      get_json = Inr (JObject [(''a'', JNull)])\<rparr>
     = handle_request www_os
         \<lparr>predictor = stub_predictor, field_names = None, static_dir = Some ''/srv/www'',
          sanitizer = None, title = ''Other''\<rparr>
         \<lparr>req_method = POST, req_path = ''/predict_batch'',
          get_json = Inr (JObject [(''a'', JNull)])\<rparr>"
proof -
  have a: "snd (make_app stub_os stub_predictor (Some [''a'']) None None ''AllenNLP Demo'')
             = Inr stub_app"
    by (simp add: make_app_def stub_app_def)
  have b: "snd (make_app www_os stub_predictor None (Some ''www'') None ''Other'')
             = Inr \<lparr>predictor = stub_predictor, field_names = None,
                    static_dir = Some ''/srv/www'', sanitizer = None, title = ''Other''\<rparr>"
    by (simp add: make_app_def www_os_def stub_os_def)
  show ?thesis
    using prediction_depends_on_predictor_and_sanitizer [OF a b] by simp
qed

text \<open>
  C8. As stated (every POST /predict_batch writes one log line with the inputs and
  outputs) the claim fails: \<open>predict_batch\<close> has no logging call. What holds: the only
  logging call of the views is the one in \<open>predict\<close>. A request makes the views write a
  log line exactly when it is a POST on /predict whose body is decoded and on which the
  predictor returns, and then it is one line, holding the decoded inputs and the
  outputs that are returned; every other request, a POST on /predict_batch among them,
  makes them write none.
\<close>

theorem only_predict_logs:
  "fst (handle_request os a req)
     = (if req_method req = POST \<and> req_path req = ''/predict''
        then (case get_json req of
                Inl e \<Rightarrow> []
              | Inr data \<Rightarrow>
                  (case predict_json (predictor a) data of
                     Inl e \<Rightarrow> []
                   | Inr p \<Rightarrow>
                       [LogInfo ''prediction: %s''
                          (JObject [(''inputs'', data),
                                    (''outputs'',
                                     case sanitizer a of None \<Rightarrow> p | Some s \<Rightarrow> s p)])]))
        else [])
   \<and> fst (handle_request os a
          \<lparr>req_method = POST, req_path = ''/predict_batch'', get_json = j\<rparr>) = []
   \<and> (predict_json (predictor a) data = Inr p \<longrightarrow>
        fst (handle_request os a
               \<lparr>req_method = POST, req_path = ''/predict'', get_json = Inr data\<rparr>)
          = [LogInfo ''prediction: %s''
               (JObject [(''inputs'', data),
                         (''outputs'', case sanitizer a of None \<Rightarrow> p | Some s \<Rightarrow> s p)])])"
proof -
  have views: "fst (predict a r)
      = (if req_method r = OPTIONS then []
         else case get_json r of
                Inl e \<Rightarrow> []
              | Inr data \<Rightarrow>
                  (case predict_json (predictor a) data of
                     Inl e \<Rightarrow> []
                   | Inr p \<Rightarrow>
                       [LogInfo ''prediction: %s''
                          (JObject [(''inputs'', data),
                                    (''outputs'',
                                     case sanitizer a of None \<Rightarrow> p | Some s \<Rightarrow> s p)])]))"
    "fst (predict_batch a r) = []" for r
    by (simp_all add: predict_def predict_batch_def Let_def split: sum.splits)
  have logs: "fst (handle_request os a r)
      = (case find_route routes (req_method r) (req_path r) False of
           Inr (Predict, ms, arg) \<Rightarrow> fst (predict a r)
         | _ \<Rightarrow> [])" for r
    by (simp add: handle_request_def views split_beta
             split: sum.splits prod.splits endpoint.splits)
  have route: "(\<exists>ms arg. find_route routes (req_method r) (req_path r) False
                    = Inr (Predict, ms, arg))
      \<longleftrightarrow> req_path r = ''/predict'' \<and> (req_method r = POST \<or> req_method r = OPTIONS)"
    for r
    by (cases "req_method r")
       (auto simp: routes_def allowed_methods_def listed_methods_def automatic_options_def
             split: option.splits list.splits if_splits)
  have "fst (handle_request os a req)
      = (if req_method req = POST \<and> req_path req = ''/predict''
         then fst (predict a req) else [])"
  proof (cases "\<exists>ms arg. find_route routes (req_method req) (req_path req) False
                    = Inr (Predict, ms, arg)")
    case True
    then show ?thesis
      using route [of req] by (auto simp: logs views)
  next
    case False
    then have "fst (handle_request os a req) = []"
      by (auto simp: logs split: sum.splits prod.splits endpoint.splits)
    then show ?thesis
      using False route [of req] by auto
  qed
  then have full: "fst (handle_request os a req)
     = (if req_method req = POST \<and> req_path req = ''/predict''
        then (case get_json req of
                Inl e \<Rightarrow> []
              | Inr data \<Rightarrow>
                  (case predict_json (predictor a) data of
                     Inl e \<Rightarrow> []
                   | Inr p \<Rightarrow>
                       [LogInfo ''prediction: %s''
                          (JObject [(''inputs'', data),
                                    (''outputs'',
                                     case sanitizer a of None \<Rightarrow> p | Some s \<Rightarrow> s p)])]))
        else [])"
    by (simp add: views)
  moreover have "fst (handle_request os a
          \<lparr>req_method = POST, req_path = ''/predict_batch'', get_json = j\<rparr>) = []"
    by (simp add: handle_request_def views split_beta)
  moreover have "predict_json (predictor a) data = Inr p \<longrightarrow>
        fst (handle_request os a
               \<lparr>req_method = POST, req_path = ''/predict'', get_json = Inr data\<rparr>)
          = [LogInfo ''prediction: %s''
               (JObject [(''inputs'', data),
                         (''outputs'', case sanitizer a of None \<Rightarrow> p | Some s \<Rightarrow> s p)])]"
    by (simp add: handle_request_def views split_beta)
  ultimately show ?thesis
    by blast
qed

theorem only_predict_logs_witness:
  "fst (handle_request stub_os stub_app
          \<lparr>req_method = POST, req_path = ''/predict'', get_json = Inr JNull\<rparr>) = []
   \<and> fst (handle_request stub_os stub_app
          \<lparr>req_method = POST, req_path = ''/predict_batch'',
           get_json = Inr (JArray [JObject [(''a'', JString ''x'')]])\<rparr>) = []
   \<and> fst (handle_request stub_os stub_app
          \<lparr>req_method = POST, req_path = ''/predict'',
           get_json = Inr (JObject [(''a'', JString ''x'')])\<rparr>)
     = [LogInfo ''prediction: %s''
          (JObject [(''inputs'', JObject [(''a'', JString ''x'')]),
                    (''outputs'', JObject [(''r'', JString ''x'')])])]"
proof -
  have p: "predict_json (predictor stub_app) (JObject [(''a'', JString ''x'')])
             = Inr (JObject [(''r'', JString ''x'')])"
    by (simp add: stub_app_def stub_predictor_def)
  have q: "predict_json (predictor stub_app) JNull = Inl (PredictorError ''not an object'')"
    by (simp add: stub_app_def stub_predictor_def)
  show ?thesis
    using only_predict_logs
      [of stub_os stub_app
          "\<lparr>req_method = POST, req_path = ''/predict'', get_json = Inr JNull\<rparr>"
          "Inr (JArray [JObject [(''a'', JString ''x'')]])"
          "JObject [(''a'', JString ''x'')]" "JObject [(''r'', JString ''x'')]"] p q
    by (simp add: stub_app_def)
qed

theorem predict_batch_logs_nothing_counterexample:
  "handle_request stub_os stub_app
     \<lparr>req_method = POST, req_path = ''/predict_batch'',
      get_json = Inr (JArray [JObject [(''a'', JString ''x'')]])\<rparr>
     = ([], Inr \<lparr>status = 200, body = Json (JArray [JObject [(''r'', JString ''x'')]])\<rparr>)"
  by (simp add: handle_request_def handle_user_exception_def predict_batch_def stub_app_def
                stub_predictor_def bind_exn_def jsonify_def)

section \<open>Static files and the error handler\<close>




section \<open>Start-up\<close>

text \<open>
  C5. When the static directory does not exist, \<open>make_app\<close> logs the error and exits
  with code -1, which is not zero; \<open>serve\<close>, once the predictor is loaded, ends there,
  and no run of \<open>serve\<close> with such a directory reaches the server loop that binds the
  socket.
\<close>

theorem missing_static_dir_exits:
  assumes "\<not> path_exists os (abspath os d)"
  shows "make_app os p fns (Some d) san t
           = ([Logged (LogError ''app directory %s does not exist, aborting'' (abspath os d))],
              Inl (- 1))
         \<and> (- 1 :: int) \<noteq> 0
         \<and> (args_static_dir ar = Some d \<longrightarrow>
              (\<forall>h q. Listen h q \<notin> set (fst (serve os ar)))
              \<and> (get_predictor os ar = Inr p \<longrightarrow>
                   serve os ar
                     = ([Logged (LogError ''app directory %s does not exist, aborting''
                                   (abspath os d))],
                        Exited (- 1))))"
  using assms by (auto simp: make_app_def serve_def Let_def split: sum.splits)

theorem missing_static_dir_exits_witness:
  "make_app stub_os stub_predictor None (Some ''www'') None ''AllenNLP Demo''
     = ([Logged (LogError ''app directory %s does not exist, aborting'' ''/srv/www'')],
        Inl (- 1))
   \<and> serve stub_os (stub_args\<lparr>args_static_dir := Some ''www''\<rparr>)
     = ([Logged (LogError ''app directory %s does not exist, aborting'' ''/srv/www'')],
        Exited (- 1))"
proof -
  have e: "\<not> path_exists stub_os (abspath stub_os ''www'')"
    by (simp add: stub_os_def)
  have g: "get_predictor stub_os (stub_args\<lparr>args_static_dir := Some ''www''\<rparr>)
             = Inr stub_predictor"
    by (simp add: get_predictor_def stub_os_def stub_args_def bind_exn_def)
  have a: "abspath stub_os ''www'' = ''/srv/www''"
    by (simp add: stub_os_def)
  show ?thesis
    using missing_static_dir_exits
      [OF e, of stub_predictor None None "''AllenNLP Demo''"
          "stub_args\<lparr>args_static_dir := Some ''www''\<rparr>"] g a
    by simp
qed

text \<open>
  C9. As stated (a fatal start-up error and not a per-request error) the claim fails.
  With neither a static directory nor field names, \<open>make_app\<close> prints a notice and
  returns the app, and \<open>serve\<close>, once the predictor is loaded, goes on to the server
  loop: start-up is not fatal. The failure is per request: every GET on / raises in
  \<open>_html\<close>, the error handler does not take it, and no page is rendered.
\<close>

theorem no_front_end_fails_per_request:
  "make_app os p None None san t
     = ([Printed NO_FRONT_END],
        Inr \<lparr>predictor = p, field_names = None, static_dir = None, sanitizer = san,
              title = t\<rparr>)
   \<and> (args_static_dir ar = None \<and> args_field_names ar = None
        \<and> get_predictor os ar = Inr p \<longrightarrow>
        fst (serve os ar)
          = [Printed NO_FRONT_END, EnableCORS,
             Printed (''Model loaded, serving demo on http://'' @ args_host ar @ '':''
                        @ str_int (args_port ar)),
             Listen (args_host ar) (args_port ar)]
        \<and> snd (serve os ar)
          = Serving \<lparr>predictor = p, field_names = None, static_dir = None, sanitizer = None,
                      title = args_title ar\<rparr>)
   \<and> (static_dir a = None \<and> field_names a = None \<longrightarrow>
        handle_request os a \<lparr>req_method = GET, req_path = ''/'', get_json = j\<rparr>
          = ([], Inl (TypeError NOT_ITERABLE)))"
  by (simp add: make_app_def serve_def handle_request_def handle_user_exception_def
                index_def html_def bind_exn_def)

theorem no_front_end_fails_per_request_witness:
  "fst (serve stub_os stub_args)
     = [Printed NO_FRONT_END, EnableCORS,
        Printed ''Model loaded, serving demo on http://127.0.0.1:8000'',
        Listen ''127.0.0.1'' 8000]
   \<and> snd (serve stub_os stub_args) = Serving (stub_app\<lparr>field_names := None\<rparr>)
   \<and> handle_request stub_os (stub_app\<lparr>field_names := None\<rparr>)
        \<lparr>req_method = GET, req_path = ''/'', get_json = Inr JNull\<rparr>
     = ([], Inl (TypeError NOT_ITERABLE))"
proof -
  have g: "get_predictor stub_os stub_args = Inr stub_predictor"
    by (simp add: get_predictor_def stub_os_def stub_args_def bind_exn_def)
  have s: "str_int 8000 = ''8000''"
    by (simp add: str_int_def)
  show ?thesis
    using no_front_end_fails_per_request
      [of stub_os stub_predictor None "''AllenNLP Demo''" stub_args
          "stub_app\<lparr>field_names := None\<rparr>" "Inr JNull"] g s
    by (simp add: stub_args_def stub_app_def)
qed

theorem no_front_end_counterexample:
  "snd (make_app stub_os stub_predictor None None None ''AllenNLP Demo'')
     = Inr (stub_app\<lparr>field_names := None\<rparr>)
   \<and> snd (serve stub_os stub_args) = Serving (stub_app\<lparr>field_names := None\<rparr>)
   \<and> handle_request stub_os (stub_app\<lparr>field_names := None\<rparr>)
        \<lparr>req_method = GET, req_path = ''/'', get_json = Inr JNull\<rparr>
     = ([], Inl (TypeError NOT_ITERABLE))"
  by (simp add: make_app_def serve_def get_predictor_def stub_os_def stub_args_def
                stub_app_def bind_exn_def handle_request_def handle_user_exception_def
                index_def html_def)

section \<open>The methods of the prediction route\<close>

text \<open>
  C7. As stated (GET is an accepted method on /predict and returns the prediction) the
  claim fails: the route lists POST and OPTIONS only. A POST with a JSON body on which
  the predictor returns answers 200 with the prediction; a GET on /predict never
  reaches \<open>predict\<close>, it is taken by the rule \<open>/<path:path>\<close> as the static file
  \<open>predict\<close>.
\<close>

theorem predict_route_takes_post_not_get:
  "allowed_methods (Some [POST, OPTIONS]) = [POST, OPTIONS]
   \<and> find_route routes POST ''/predict'' False = Inr (Predict, Some [POST, OPTIONS], [])
   \<and> find_route routes GET ''/predict'' False = Inr (Static_proxy, None, ''predict'')
   \<and> handle_request os a \<lparr>req_method = GET, req_path = ''/predict'', get_json = j\<rparr>
     = ([], handle_user_exception (static_proxy os a ''predict''))
   \<and> (predict_json (predictor a) data = Inr p \<longrightarrow>
        snd (handle_request os a
               \<lparr>req_method = POST, req_path = ''/predict'', get_json = Inr data\<rparr>)
          = Inr (jsonify (case sanitizer a of None \<Rightarrow> p | Some s \<Rightarrow> s p)))"
  by (simp add: handle_request_def handle_user_exception_def predict_def Let_def
                allowed_methods_def listed_methods_def)

theorem predict_route_takes_post_not_get_witness:
  "snd (handle_request stub_os stub_app
          \<lparr>req_method = POST, req_path = ''/predict'',
           get_json = Inr (JObject [(''a'', JString ''x'')])\<rparr>)
     = Inr (jsonify (JObject [(''r'', JString ''x'')]))
   \<and> find_route routes GET ''/predict'' False = Inr (Static_proxy, None, ''predict'')"
proof -
  have p: "predict_json (predictor stub_app) (JObject [(''a'', JString ''x'')])
             = Inr (JObject [(''r'', JString ''x'')])"
    by (simp add: stub_app_def stub_predictor_def)
  show ?thesis
    using predict_route_takes_post_not_get
      [of stub_os stub_app "Inr JNull" "JObject [(''a'', JString ''x'')]"
          "JObject [(''r'', JString ''x'')]"] p
    by (simp add: stub_app_def)
qed

theorem get_predict_counterexample:
  "GET \<notin> set (allowed_methods (Some [POST, OPTIONS]))
   \<and> handle_request stub_os stub_app
       \<lparr>req_method = GET, req_path = ''/predict'',
        get_json = Inr (JObject [(''a'', JString ''x'')])\<rparr>
     = ([], Inr \<lparr>status = 404,
                  body = Json (JObject [(''message'', JString ''static_dir not specified''),
                                        (''status_code'', JNumber 404)])\<rparr>)"
  by (simp add: handle_request_def handle_user_exception_def static_proxy_def stub_app_def
                handle_invalid_usage_def jsonify_def to_dict_def allowed_methods_def
                listed_methods_def automatic_options_def)

section \<open>The rendered form\<close>































end
